theory Spec2Isabelle
  imports Complex_Main "HOL-Library.Sublist" "HOL-Library.AList"
begin

section \<open>Data model (types/database.ts)\<close>

datatype ReportStatus = Reported | In_progress | Resolved

datatype ReportCategory = Pothole | Garbage | Streetlight | Drainage | Water | Noise

datatype InteractionType = Upvote | Downvote

text \<open>
  Modelled from the spec: the \<open>is_anonymous\<close> field of \<open>Report\<close>. The type declaration
  that AdminDashboard.tsx compiles against is not among the sources (the declaration file
  that is there belongs to the variant without profiles); the spec's data model lists an
  "anonymity flag" on every report. The other fields are those of the interface
  \<open>Report\<close>. A TypeScript \<open>number\<close> is carried as a \<open>real\<close>: no field of that type is
  ever computed with. \<open>T | null\<close> is \<open>T option\<close>.
\<close>

record Report =
  id_report :: string
  user_id :: string
  title :: string
  description :: "string option"
  category :: ReportCategory
  status :: ReportStatus
  latitude :: "real option"
  longitude :: "real option"
  location_name :: "string option"
  photo_urls :: "string list option"
  eta_days :: "real option"
  created_at :: string
  updated_at :: string
  is_anonymous :: bool

record ReportInteraction =
  id_interaction :: string
  report_id :: string
  user_id_interaction :: string
  interaction_type :: InteractionType
  created_at_interaction :: string
  updated_at_interaction :: string

text \<open>
  Modelled from the spec: the interface \<open>Profile\<close>, whose declaration is not among the
  sources. The spec gives it an identifier, an optional full name and an email.
\<close>

record Profile =
  id_profile :: string
  full_name :: "string option"
  email :: string

text \<open>
  Modelled from the spec: the field \<open>reporter_name\<close> of \<open>ReportWithVotes\<close>, missing
  from the declaration among the sources (\<open>ReportWithVotes extends Report\<close> with
  \<open>upvotes\<close> and \<open>downvotes\<close>). The spec's derived view carries the resolved name
  "optionally": the variant with profiles sets it, the variant without leaves it absent.
\<close>

record ReportWithVotes = Report +
  upvotes :: nat
  downvotes :: nat
  reporter_name :: "string option"

section \<open>JavaScript operators used by the aggregator\<close>

text \<open>\<open>a || b\<close> on values that are a string, \<open>null\<close> or \<open>undefined\<close>: the empty string,
  \<open>null\<close> and \<open>undefined\<close> are falsy.\<close>

definition js_or :: "string option \<Rightarrow> string option \<Rightarrow> string option" where
  "js_or a b = (case a of None \<Rightarrow> b | Some s \<Rightarrow> if s = [] then b else Some s)"

text \<open>\<open>a || "literal"\<close> with a non-empty literal: the result is a string.\<close>

definition js_or_lit :: "string option \<Rightarrow> string \<Rightarrow> string" where
  "js_or_lit a d = (case a of None \<Rightarrow> d | Some s \<Rightarrow> if s = [] then d else s)"

text \<open>\<open>data || []\<close> and \<open>data?.f(...) || []\<close> on an array or \<open>null\<close>: every array is truthy.\<close>

definition or_empty :: "'a list option \<Rightarrow> 'a list" where
  "or_empty d = (case d of None \<Rightarrow> [] | Some xs \<Rightarrow> xs)"

section \<open>The aggregator of AdminDashboard.tsx (variant with profiles)\<close>

text \<open>\<open>profilesMap\<close>: \<open>profilesData?.forEach(profile => profilesMap.set(profile.id, profile))\<close>
  on a fresh \<open>Map\<close>. A later profile with the same id replaces an earlier one.\<close>

definition profilesMap :: "Profile list option \<Rightarrow> (string \<rightharpoonup> Profile)" where
  "profilesMap profilesData =
     (case profilesData of
        None \<Rightarrow> Map.empty
      | Some ps \<Rightarrow> fold (\<lambda>profile m. m(id_profile profile \<mapsto> profile)) ps Map.empty)"

definition reportInteractions :: "ReportInteraction list option \<Rightarrow> 'a Report_scheme \<Rightarrow> ReportInteraction list" where
  "reportInteractions interactionsData report =
     or_empty (map_option (filter (\<lambda>interaction. report_id interaction = id_report report))
                 interactionsData)"

definition count_votes :: "InteractionType \<Rightarrow> ReportInteraction list \<Rightarrow> nat" where
  "count_votes t ris = length (filter (\<lambda>interaction. interaction_type interaction = t) ris)"

text \<open>\<open>let reporter_name = "Anonymous"; if (!report.is_anonymous) { ... }\<close>\<close>

definition resolve_reporter_name :: "(string \<rightharpoonup> Profile) \<Rightarrow> Report \<Rightarrow> string" where
  "resolve_reporter_name pm report =
     (if \<not> is_anonymous report then
        (let profile = pm (user_id report) in
           js_or_lit (js_or (Option.bind profile full_name) (map_option email profile))
             ''Unknown'')
      else ''Anonymous'')"

text \<open>The callback of \<open>(reportsData || []).map\<close>: \<open>{...report, upvotes, downvotes, reporter_name}\<close>.\<close>

definition with_votes :: "(string \<rightharpoonup> Profile) \<Rightarrow> ReportInteraction list option \<Rightarrow> Report \<Rightarrow> ReportWithVotes" where
  "with_votes pm interactionsData report =
     (let ris = reportInteractions interactionsData report
      in Report.extend report
           (ReportWithVotes.fields (count_votes Upvote ris) (count_votes Downvote ris)
              (Some (resolve_reporter_name pm report))))"

definition aggregate :: "Report list option \<Rightarrow> ReportInteraction list option \<Rightarrow> Profile list option \<Rightarrow> ReportWithVotes list" where
  "aggregate reportsData interactionsData profilesData =
     map (with_votes (profilesMap profilesData) interactionsData) (or_empty reportsData)"

section \<open>The aggregator of the variant without profiles\<close>

definition with_votes_plain :: "ReportInteraction list option \<Rightarrow> Report \<Rightarrow> ReportWithVotes" where
  "with_votes_plain interactionsData report =
     (let ris = reportInteractions interactionsData report
      in Report.extend report
           (ReportWithVotes.fields (count_votes Upvote ris) (count_votes Downvote ris) None))"

definition aggregate_plain :: "Report list option \<Rightarrow> ReportInteraction list option \<Rightarrow> ReportWithVotes list" where
  "aggregate_plain reportsData interactionsData =
     map (with_votes_plain interactionsData) (or_empty reportsData)"

section \<open>The aggregator on an explicit store\<close>

text \<open>
  The same two aggregators with the JavaScript objects they work on made explicit, so that
  what they write can be stated. The store is the list of the objects allocated so far;
  an address is a position in it. Reports, interactions and profiles are objects, an array
  is an object holding the addresses of its elements, and the \<open>Map\<close> holds, per key in
  insertion order, the address of a profile. Reading a property from a value of the wrong
  shape is the result \<open>None\<close> (JavaScript throws a TypeError). A field that is itself an
  array (\<open>photo_urls\<close>) is kept by value: the aggregator only copies it.
\<close>

type_synonym addr = nat

datatype obj =
    Report_obj Report
  | Interaction_obj ReportInteraction
  | Profile_obj Profile
  | Row_obj ReportWithVotes
  | Array_obj "addr list"
  | Map_obj "(string \<times> addr) list"

type_synonym store = "obj list"

definition lookup :: "store \<Rightarrow> addr \<Rightarrow> obj option" where
  "lookup s a = (if a < length s then Some (s ! a) else None)"

definition alloc :: "obj \<Rightarrow> store \<Rightarrow> addr \<times> store" where
  "alloc ob s = (length s, s @ [ob])"

definition get_report :: "store \<Rightarrow> addr \<Rightarrow> Report option" where
  "get_report s a = (case lookup s a of Some (Report_obj r) \<Rightarrow> Some r | _ \<Rightarrow> None)"

definition get_interaction :: "store \<Rightarrow> addr \<Rightarrow> ReportInteraction option" where
  "get_interaction s a = (case lookup s a of Some (Interaction_obj i) \<Rightarrow> Some i | _ \<Rightarrow> None)"

definition get_profile :: "store \<Rightarrow> addr \<Rightarrow> Profile option" where
  "get_profile s a = (case lookup s a of Some (Profile_obj p) \<Rightarrow> Some p | _ \<Rightarrow> None)"

definition get_row :: "store \<Rightarrow> addr \<Rightarrow> ReportWithVotes option" where
  "get_row s a = (case lookup s a of Some (Row_obj r) \<Rightarrow> Some r | _ \<Rightarrow> None)"

definition get_array :: "store \<Rightarrow> addr \<Rightarrow> addr list option" where
  "get_array s a = (case lookup s a of Some (Array_obj xs) \<Rightarrow> Some xs | _ \<Rightarrow> None)"

definition get_map :: "store \<Rightarrow> addr \<Rightarrow> (string \<times> addr) list option" where
  "get_map s a = (case lookup s a of Some (Map_obj al) \<Rightarrow> Some al | _ \<Rightarrow> None)"

text \<open>The values an array of objects holds, and those of a collection that may be
  \<open>null\<close>.\<close>

definition read_array :: "(store \<Rightarrow> addr \<Rightarrow> 'a option) \<Rightarrow> store \<Rightarrow> addr \<Rightarrow> 'a list option" where
  "read_array get s a =
     (case get_array s a of None \<Rightarrow> None | Some elems \<Rightarrow> those (map (get s) elems))"

definition read_data :: "(store \<Rightarrow> addr \<Rightarrow> 'a option) \<Rightarrow> store \<Rightarrow> addr option \<Rightarrow> 'a list option option" where
  "read_data get s data =
     (case data of None \<Rightarrow> Some None | Some a \<Rightarrow> map_option Some (read_array get s a))"

text \<open>\<open>profilesMap.set(key, value)\<close>: the one write to an object that already exists, the \<open>Map\<close>
  that \<open>new Map\<close> has just made.\<close>

definition map_set :: "addr \<Rightarrow> string \<Rightarrow> addr \<Rightarrow> store \<Rightarrow> store option" where
  "map_set m k v s =
     (case get_map s m of
        None \<Rightarrow> None
      | Some al \<Rightarrow> Some (s[m := Map_obj (AList.update k v al)]))"

text \<open>\<open>profilesData.forEach(profile => profilesMap.set(profile.id, profile))\<close>\<close>

fun forEach_set :: "addr \<Rightarrow> addr list \<Rightarrow> store \<Rightarrow> store option" where
  "forEach_set m [] s = Some s"
| "forEach_set m (p # ps) s =
     (case get_profile s p of
        None \<Rightarrow> None
      | Some profile \<Rightarrow>
          (case map_set m (id_profile profile) p s of
             None \<Rightarrow> None
           | Some s' \<Rightarrow> forEach_set m ps s'))"

text \<open>\<open>const profilesMap = new Map(); profilesData?.forEach(...)\<close>\<close>

definition profilesMap_store :: "addr option \<Rightarrow> store \<Rightarrow> (addr \<times> store) option" where
  "profilesMap_store profilesData s =
     (let (m, s1) = alloc (Map_obj []) s in
      case profilesData of
        None \<Rightarrow> Some (m, s1)
      | Some a \<Rightarrow>
          (case get_array s1 a of
             None \<Rightarrow> None
           | Some elems \<Rightarrow> map_option (Pair m) (forEach_set m elems s1)))"

text \<open>The elements that \<open>array.filter(predicate)\<close> keeps, for a predicate that reads the
  interaction; the caller allocates the new array.\<close>

fun filter_store :: "(ReportInteraction \<Rightarrow> bool) \<Rightarrow> addr list \<Rightarrow> store \<Rightarrow> addr list option" where
  "filter_store P [] s = Some []"
| "filter_store P (a # as) s =
     (case get_interaction s a of
        None \<Rightarrow> None
      | Some interaction \<Rightarrow>
          map_option (\<lambda>rest. if P interaction then a # rest else rest) (filter_store P as s))"

text \<open>The three \<open>filter\<close> calls of the callback, each making a new array (the literal
  \<open>[]\<close> when \<open>interactionsData\<close> is \<open>null\<close>), and the two \<open>.length\<close>.\<close>

definition votes_store :: "addr option \<Rightarrow> Report \<Rightarrow> store \<Rightarrow> (nat \<times> nat \<times> store) option" where
  "votes_store interactionsData report s =
     (case (case interactionsData of
              None \<Rightarrow> Some []
            | Some a \<Rightarrow>
                (case get_array s a of
                   None \<Rightarrow> None
                 | Some elems \<Rightarrow>
                     filter_store (\<lambda>interaction. report_id interaction = id_report report) elems s)) of
        None \<Rightarrow> None
      | Some ris \<Rightarrow>
          (let (ri, s1) = alloc (Array_obj ris) s in
           case filter_store (\<lambda>interaction. interaction_type interaction = Upvote) ris s1 of
             None \<Rightarrow> None
           | Some ups \<Rightarrow>
               (let (ua, s2) = alloc (Array_obj ups) s1 in
                case filter_store (\<lambda>interaction. interaction_type interaction = Downvote) ris s2 of
                  None \<Rightarrow> None
                | Some downs \<Rightarrow>
                    (let (da, s3) = alloc (Array_obj downs) s2 in
                     Some (length ups, length downs, s3)))))"

text \<open>\<open>profilesMap.get(report.user_id)\<close>, then \<open>profile?.full_name || profile?.email ||
  "Unknown"\<close>.\<close>

definition reporter_name_store :: "addr \<Rightarrow> Report \<Rightarrow> store \<Rightarrow> string option" where
  "reporter_name_store m report s =
     (if \<not> is_anonymous report then
        (case get_map s m of
           None \<Rightarrow> None
         | Some al \<Rightarrow>
             (case map_of al (user_id report) of
                None \<Rightarrow> Some (js_or_lit (js_or None None) ''Unknown'')
              | Some p \<Rightarrow>
                  (case get_profile s p of
                     None \<Rightarrow> None
                   | Some profile \<Rightarrow>
                       Some (js_or_lit (js_or (full_name profile) (Some (email profile)))
                               ''Unknown''))))
      else Some ''Anonymous'')"

text \<open>The callback: the object literal \<open>{...report, upvotes, downvotes, reporter_name}\<close>
  is a new object.\<close>

definition with_votes_store :: "addr \<Rightarrow> addr option \<Rightarrow> addr \<Rightarrow> store \<Rightarrow> (addr \<times> store) option" where
  "with_votes_store m interactionsData r s =
     (case get_report s r of
        None \<Rightarrow> None
      | Some report \<Rightarrow>
          (case votes_store interactionsData report s of
             None \<Rightarrow> None
           | Some (up, down, s1) \<Rightarrow>
               (case reporter_name_store m report s1 of
                  None \<Rightarrow> None
                | Some name \<Rightarrow>
                    Some (alloc (Row_obj (Report.extend report
                            (ReportWithVotes.fields up down (Some name)))) s1))))"

definition with_votes_plain_store :: "addr option \<Rightarrow> addr \<Rightarrow> store \<Rightarrow> (addr \<times> store) option" where
  "with_votes_plain_store interactionsData r s =
     (case get_report s r of
        None \<Rightarrow> None
      | Some report \<Rightarrow>
          (case votes_store interactionsData report s of
             None \<Rightarrow> None
           | Some (up, down, s1) \<Rightarrow>
               Some (alloc (Row_obj (Report.extend report
                       (ReportWithVotes.fields up down None))) s1)))"

text \<open>\<open>array.map(callback)\<close>: the callback runs on the elements in order.\<close>

fun map_store :: "(addr \<Rightarrow> store \<Rightarrow> (addr \<times> store) option) \<Rightarrow> addr list \<Rightarrow> store \<Rightarrow> (addr list \<times> store) option" where
  "map_store callback [] s = Some ([], s)"
| "map_store callback (r # rs) s =
     (case callback r s of
        None \<Rightarrow> None
      | Some (a, s1) \<Rightarrow>
          (case map_store callback rs s1 of
             None \<Rightarrow> None
           | Some (as, s2) \<Rightarrow> Some (a # as, s2)))"

text \<open>\<open>(reportsData || []).map(callback)\<close>: the literal \<open>[]\<close> is a new array when
  \<open>reportsData\<close> is \<open>null\<close>, and the result of \<open>map\<close> is a new array.\<close>

definition array_map_store :: "(addr \<Rightarrow> store \<Rightarrow> (addr \<times> store) option) \<Rightarrow> addr option \<Rightarrow> store \<Rightarrow> (addr \<times> store) option" where
  "array_map_store callback reportsData s =
     (case (case reportsData of
              None \<Rightarrow> Some ([], snd (alloc (Array_obj []) s))
            | Some a \<Rightarrow> map_option (\<lambda>elems. (elems, s)) (get_array s a)) of
        None \<Rightarrow> None
      | Some (elems, s1) \<Rightarrow>
          (case map_store callback elems s1 of
             None \<Rightarrow> None
           | Some (rows, s2) \<Rightarrow> Some (alloc (Array_obj rows) s2)))"

definition aggregate_store :: "addr option \<Rightarrow> addr option \<Rightarrow> addr option \<Rightarrow> store \<Rightarrow> (addr \<times> store) option" where
  "aggregate_store reportsData interactionsData profilesData s =
     (case profilesMap_store profilesData s of
        None \<Rightarrow> None
      | Some (m, s1) \<Rightarrow> array_map_store (with_votes_store m interactionsData) reportsData s1)"

definition aggregate_plain_store :: "addr option \<Rightarrow> addr option \<Rightarrow> store \<Rightarrow> (addr \<times> store) option" where
  "aggregate_plain_store reportsData interactionsData s =
     array_map_store (with_votes_plain_store interactionsData) reportsData s"

text \<open>The \<open>Map\<close> object \<open>al\<close> of a store represents the map \<open>pm\<close> of profiles: a key is
  bound in both or in neither, and the address it is bound to holds the profile.\<close>

definition map_rel :: "store \<Rightarrow> (string \<times> addr) list \<Rightarrow> (string \<rightharpoonup> Profile) \<Rightarrow> bool" where
  "map_rel s al pm \<longleftrightarrow> (\<forall>k. rel_option (\<lambda>p v. get_profile s p = Some v) (map_of al k) (pm k))"

section \<open>The component's state and its effects\<close>

text \<open>A value caught by \<open>catch (err)\<close>: \<open>err instanceof Error\<close> holds (and the value has a
  \<open>message\<close>) or does not.\<close>

datatype thrown = ErrorInstance string | OtherValue

text \<open>What \<open>await\<close> on a call of the data client gives: the promise rejects, or it is
  fulfilled with \<open>{ data, error }\<close> where \<open>error\<close> is an error object or \<open>null\<close>.\<close>

datatype 'a outcome = Fulfilled 'a "thrown option" | Rejected thrown

datatype effect =
    RemoteUpdate string ReportStatus string
  | ConsoleError string thrown
  | Alert string

text \<open>\<open>ReportStatus | "all"\<close>\<close>

datatype status_filter = All | Only ReportStatus

record dashboard =
  reports :: "ReportWithVotes list"
  loading :: bool
  error :: "string option"
  statusFilter :: status_filter

text \<open>\<open>const { data, error } = await ...; if (error) throw error;\<close>\<close>

definition settle :: "'a outcome \<Rightarrow> thrown + 'a" where
  "settle q =
     (case q of
        Rejected e \<Rightarrow> Inl e
      | Fulfilled d None \<Rightarrow> Inr d
      | Fulfilled d (Some e) \<Rightarrow> Inl e)"

section \<open>The status mutator\<close>

text \<open>The updater passed to \<open>setReports\<close>: \<open>prev.map(report => report.id === reportId ?
  {...report, status: newStatus, updated_at: new Date().toISOString()} : report)\<close>.
  The clock is read once for every matching report: \<open>clock n\<close> is the \<open>n\<close>-th reading
  that \<open>updateReportStatus\<close> takes.\<close>

fun mirror_status :: "string \<Rightarrow> ReportStatus \<Rightarrow> (nat \<Rightarrow> string) \<Rightarrow> nat \<Rightarrow> ReportWithVotes list \<Rightarrow> ReportWithVotes list" where
  "mirror_status reportId newStatus clock n [] = []"
| "mirror_status reportId newStatus clock n (report # prev) =
     (if id_report report = reportId
      then report\<lparr>status := newStatus, updated_at := clock n\<rparr>
             # mirror_status reportId newStatus clock (Suc n) prev
      else report # mirror_status reportId newStatus clock n prev)"

text \<open>\<open>updateReportStatus\<close>, the same in both variants. The request to the data store
  (with the first clock reading) is an effect; what the store answers is the argument
  \<open>update\<close>.\<close>

definition updateReportStatus ::
  "string \<Rightarrow> ReportStatus \<Rightarrow> (nat \<Rightarrow> string) \<Rightarrow> unit outcome \<Rightarrow> dashboard \<Rightarrow> dashboard \<times> effect list" where
  "updateReportStatus reportId newStatus clock update s =
     (case settle update of
        Inr _ \<Rightarrow>
          (s\<lparr>reports := mirror_status reportId newStatus clock 1 (reports s)\<rparr>,
           [RemoteUpdate reportId newStatus (clock 0)])
      | Inl err \<Rightarrow>
          (s, [RemoteUpdate reportId newStatus (clock 0),
               ConsoleError ''Error updating status:'' err,
               Alert ''Failed to update status'']))"

section \<open>The view: status filter and action buttons\<close>

text \<open>\<open>statusFilter === "all" ? reports : reports.filter(report => report.status ===
  statusFilter)\<close>, of the state's \<open>statusFilter\<close> and \<open>reports\<close>.\<close>

definition filteredReports :: "status_filter \<Rightarrow> ReportWithVotes list \<Rightarrow> ReportWithVotes list" where
  "filteredReports flt rows =
     (if flt = All then rows
      else filter (\<lambda>report. Only (status report) = flt) rows)"

text \<open>The targets of the buttons rendered in the Actions cell of a row: each is rendered
  under \<open>report.status !== "..." &&\<close> and calls \<open>updateReportStatus(report.id, "...")\<close>.\<close>

definition action_buttons :: "ReportStatus \<Rightarrow> ReportStatus list" where
  "action_buttons st =
     (if st \<noteq> Reported then [Reported] else []) @
     (if st \<noteq> In_progress then [In_progress] else []) @
     (if st \<noteq> Resolved then [Resolved] else [])"

section \<open>Example inputs\<close>

definition example_report :: "string \<Rightarrow> string \<Rightarrow> ReportStatus \<Rightarrow> bool \<Rightarrow> Report" where
  "example_report i u st anon =
     \<lparr>id_report = i, user_id = u, title = ''Pothole on Main St'', description = None,
      category = Pothole, status = st, latitude = None, longitude = None,
      location_name = None, photo_urls = None, eta_days = None,
      created_at = ''2024-01-01T00:00:00.000Z'', updated_at = ''2024-01-01T00:00:00.000Z'',
      is_anonymous = anon\<rparr>"

definition example_interaction :: "string \<Rightarrow> string \<Rightarrow> InteractionType \<Rightarrow> ReportInteraction" where
  "example_interaction i r t =
     \<lparr>id_interaction = i, report_id = r, user_id_interaction = ''voter'',
      interaction_type = t, created_at_interaction = ''2024-01-02T00:00:00.000Z'',
      updated_at_interaction = ''2024-01-02T00:00:00.000Z''\<rparr>"

definition example_row :: "string \<Rightarrow> ReportStatus \<Rightarrow> ReportWithVotes" where
  "example_row i st =
     Report.extend (example_report i ''u1'' st False) (ReportWithVotes.fields 0 0 None)"

definition example_dashboard :: "ReportWithVotes list \<Rightarrow> dashboard" where
  "example_dashboard rows =
     \<lparr>reports = rows, loading = False, error = None, statusFilter = All\<rparr>"

definition example_clock :: "nat \<Rightarrow> string" where
  "example_clock n = (if n = 0 then ''T0'' else if n = 1 then ''T1'' else ''T2'')"

definition example_profile :: "string \<Rightarrow> string option \<Rightarrow> string \<Rightarrow> Profile" where
  "example_profile i n e = \<lparr>id_profile = i, full_name = n, email = e\<rparr>"

definition example_store :: store where
  "example_store =
     [Report_obj (example_report ''a'' ''u1'' Reported False), Array_obj [0],
      Interaction_obj (example_interaction ''i1'' ''a'' Upvote), Array_obj [2],
      Profile_obj (example_profile ''u1'' (Some ''Asha'') ''asha@example.org''), Array_obj [4]]"

definition example_store' :: store where
  "example_store' =
     [Array_obj [5], Array_obj [3], Array_obj [4],
      Profile_obj (example_profile ''u1'' (Some ''Asha'') ''asha@example.org''),
      Interaction_obj (example_interaction ''i1'' ''a'' Upvote),
      Report_obj (example_report ''a'' ''u1'' Reported False),
      Row_obj (example_row ''z'' Resolved)]"

section \<open>Properties of one aggregated row\<close>

lemma with_votes_sel:
  "upvotes (with_votes pm idata r) = count_votes Upvote (reportInteractions idata r)"
  "downvotes (with_votes pm idata r) = count_votes Downvote (reportInteractions idata r)"
  "reporter_name (with_votes pm idata r) = Some (resolve_reporter_name pm r)"
  "Report.truncate (with_votes pm idata r) = r"
  by (simp_all add: with_votes_def Report.extend_def Report.truncate_def
      ReportWithVotes.fields_def Let_def)

lemma with_votes_plain_sel:
  "upvotes (with_votes_plain idata r) = count_votes Upvote (reportInteractions idata r)"
  "downvotes (with_votes_plain idata r) = count_votes Downvote (reportInteractions idata r)"
  "reporter_name (with_votes_plain idata r) = None"
  "Report.truncate (with_votes_plain idata r) = r"
  by (simp_all add: with_votes_plain_def Report.extend_def Report.truncate_def
      ReportWithVotes.fields_def Let_def)

text \<open>The two nested \<open>filter\<close> calls select by report reference and by type at once.\<close>

lemma count_votes_reportInteractions:
  "count_votes t (reportInteractions idata r) =
     length (filter (\<lambda>i. report_id i = id_report r \<and> interaction_type i = t) (or_empty idata))"
  by (cases idata)
     (simp_all add: count_votes_def reportInteractions_def or_empty_def conj_commute)

text \<open>What \<open>profilesMap.get\<close> finds: the last profile of the collection with that id.\<close>

lemma fold_profiles_lookup:
  "fold (\<lambda>profile m. m(id_profile profile \<mapsto> profile)) ps m0 k =
     (case List.find (\<lambda>p. id_profile p = k) (rev ps) of None \<Rightarrow> m0 k | Some p \<Rightarrow> Some p)"
  by (induction ps rule: rev_induct) auto

lemma profilesMap_lookup:
  "profilesMap pd k = List.find (\<lambda>p. id_profile p = k) (rev (or_empty pd))"
  by (cases pd)
     (simp_all add: profilesMap_def or_empty_def fold_profiles_lookup split: option.splits)

lemmas example_aggregate_defs =
  example_report_def example_interaction_def example_profile_def aggregate_def with_votes_def
  Report.extend_def ReportWithVotes.fields_def Let_def or_empty_def reportInteractions_def
  count_votes_def profilesMap_def resolve_reporter_name_def js_or_def js_or_lit_def

section \<open>Properties of the local status update\<close>

lemma length_mirror_status:
  "length (mirror_status rid st clock n prev) = length prev"
  by (induction prev arbitrary: n) simp_all

text \<open>Position \<open>k\<close> after the update; the clock reading a matching report gets is the one
  after those taken for the matching reports before it.\<close>

lemma nth_mirror_status:
  "k < length prev \<Longrightarrow>
   mirror_status rid st clock n prev ! k =
     (if id_report (prev ! k) = rid
      then (prev ! k)\<lparr>status := st,
             updated_at := clock (n + length (filter (\<lambda>r. id_report r = rid) (take k prev)))\<rparr>
      else prev ! k)"
proof (induction prev arbitrary: n k)
  case Nil
  then show ?case by simp
next
  case (Cons r prev)
  show ?case
  proof (cases k)
    case 0
    then show ?thesis by simp
  next
    case (Suc j)
    with Cons.prems have "j < length prev" by simp
    from Cons.IH [OF this] Suc show ?thesis by simp
  qed
qed

section \<open>The aggregator on a store computes the aggregated rows\<close>

lemmas get_defs = get_report_def get_interaction_def get_profile_def get_row_def
  get_array_def get_map_def

lemma lookup_prefix: "prefix s s' \<Longrightarrow> lookup s a = Some ob \<Longrightarrow> lookup s' a = Some ob"
  by (auto simp: lookup_def prefix_def nth_append split: if_splits)

lemma get_prefix:
  assumes "prefix s s'"
  shows "get_report s a = Some r \<Longrightarrow> get_report s' a = Some r"
    and "get_interaction s a = Some i \<Longrightarrow> get_interaction s' a = Some i"
    and "get_profile s a = Some p \<Longrightarrow> get_profile s' a = Some p"
    and "get_row s a = Some w \<Longrightarrow> get_row s' a = Some w"
    and "get_array s a = Some xs \<Longrightarrow> get_array s' a = Some xs"
    and "get_map s a = Some al \<Longrightarrow> get_map s' a = Some al"
  using lookup_prefix [OF assms, of a]
  by (auto simp: get_defs split: option.splits obj.splits)

lemma those_map_mono:
  "those (map f xs) = Some vs \<Longrightarrow> (\<And>a v. f a = Some v \<Longrightarrow> g a = Some v) \<Longrightarrow>
   those (map g xs) = Some vs"
  by (induction xs arbitrary: vs) (auto split: option.splits)

lemma read_data_prefix:
  assumes "prefix s s'"
  shows "read_data get_report s d = Some v1 \<Longrightarrow> read_data get_report s' d = Some v1"
    and "read_data get_interaction s d = Some v2 \<Longrightarrow> read_data get_interaction s' d = Some v2"
    and "read_data get_profile s d = Some v3 \<Longrightarrow> read_data get_profile s' d = Some v3"
  by (auto simp: read_data_def read_array_def get_prefix(5) [OF assms]
      split: option.splits
      dest: get_prefix(5) [OF assms] those_map_mono [OF _ get_prefix(1) [OF assms]]
        those_map_mono [OF _ get_prefix(2) [OF assms]]
        those_map_mono [OF _ get_prefix(3) [OF assms]])

lemma map_rel_prefix: "prefix s s' \<Longrightarrow> map_rel s al pm \<Longrightarrow> map_rel s' al pm"
  unfolding map_rel_def
  by (meson option.rel_mono_strong get_prefix(3))

lemma filter_store_refines:
  "those (map (get_interaction s) elems) = Some vals \<Longrightarrow>
   \<exists>as. filter_store P elems s = Some as
      \<and> those (map (get_interaction s) as) = Some (filter P vals)"
  by (induction elems arbitrary: vals) (auto split: option.splits)

lemma prefix_snoc: "prefix s (s @ [ob])"
  by simp

lemma votes_store_refines:
  assumes "read_data get_interaction s interactionsData = Some idata"
  shows "\<exists>s'. votes_store interactionsData report s =
            Some (count_votes Upvote (reportInteractions idata report),
                  count_votes Downvote (reportInteractions idata report), s')
          \<and> prefix s s'"
proof -
  let ?P = "\<lambda>interaction. report_id interaction = id_report report"
  obtain ris where ris:
    "(case interactionsData of
        None \<Rightarrow> Some []
      | Some a \<Rightarrow> (case get_array s a of None \<Rightarrow> None
                   | Some elems \<Rightarrow> filter_store ?P elems s)) = Some ris"
    and vals: "those (map (get_interaction s) ris) = Some (reportInteractions idata report)"
  proof (cases interactionsData)
    case None
    with assms that show ?thesis
      by (auto simp: read_data_def reportInteractions_def or_empty_def)
  next
    case (Some a)
    with assms obtain elems vs where e: "get_array s a = Some elems"
      "those (map (get_interaction s) elems) = Some vs" "idata = Some vs"
      by (auto simp: read_data_def read_array_def split: option.splits)
    from filter_store_refines [OF e(2), of ?P] Some e that show ?thesis
      by (auto simp: reportInteractions_def or_empty_def)
  qed
  let ?s1 = "s @ [Array_obj ris]"
  have p1: "prefix s ?s1" by simp
  have v1: "those (map (get_interaction ?s1) ris) = Some (reportInteractions idata report)"
    by (rule those_map_mono [OF vals]) (rule get_prefix(2) [OF p1])
  obtain ups where ups: "filter_store (\<lambda>i. interaction_type i = Upvote) ris ?s1 = Some ups"
    "those (map (get_interaction ?s1) ups)
       = Some (filter (\<lambda>i. interaction_type i = Upvote) (reportInteractions idata report))"
    using filter_store_refines [OF v1] by blast
  let ?s2 = "?s1 @ [Array_obj ups]"
  have p2: "prefix ?s1 ?s2" by simp
  have v2: "those (map (get_interaction ?s2) ris) = Some (reportInteractions idata report)"
    by (rule those_map_mono [OF v1]) (rule get_prefix(2) [OF p2])
  obtain downs where downs:
    "filter_store (\<lambda>i. interaction_type i = Downvote) ris ?s2 = Some downs"
    "those (map (get_interaction ?s2) downs)
       = Some (filter (\<lambda>i. interaction_type i = Downvote) (reportInteractions idata report))"
    using filter_store_refines [OF v2] by blast
  have len: "length xs = length ys" if "those (map f xs) = Some ys" for f :: "addr \<Rightarrow> ReportInteraction option" and xs ys
    using that by (induction xs arbitrary: ys) (auto split: option.splits)
  have "votes_store interactionsData report s = Some (length ups, length downs, ?s2 @ [Array_obj downs])"
    using ris ups(1) downs(1) by (simp add: votes_store_def alloc_def)
  moreover have "length ups = count_votes Upvote (reportInteractions idata report)"
    using len [OF ups(2)] by (simp add: count_votes_def)
  moreover have "length downs = count_votes Downvote (reportInteractions idata report)"
    using len [OF downs(2)] by (simp add: count_votes_def)
  ultimately show ?thesis by simp
qed

lemma get_profile_map_upd:
  "get_map s m = Some al \<Longrightarrow> get_profile (s[m := Map_obj al']) p = get_profile s p"
  by (auto simp: get_defs lookup_def nth_list_update split: if_splits option.splits obj.splits)

lemma get_map_upd: "get_map s m = Some al \<Longrightarrow> get_map (s[m := Map_obj al']) m = Some al'"
  by (auto simp: get_defs lookup_def split: if_splits option.splits obj.splits)

lemma forEach_set_refines:
  assumes "get_map s m = Some al"
    and "those (map (get_profile s) ps) = Some vals"
    and "map_rel s al pm"
  shows "\<exists>al'. forEach_set m ps s = Some (s[m := Map_obj al'])
           \<and> map_rel s al' (fold (\<lambda>profile m. m(id_profile profile \<mapsto> profile)) vals pm)"
  using assms
proof (induction ps arbitrary: s al pm vals)
  case Nil
  then have "s[m := Map_obj al] = s"
    by (auto simp: get_defs lookup_def list_update_same_conv split: if_splits option.splits obj.splits)
  with Nil show ?case by (intro exI [of _ al]) simp
next
  case (Cons p ps)
  from Cons.prems(2) obtain v vs where v: "get_profile s p = Some v"
    "those (map (get_profile s) ps) = Some vs" "vals = v # vs"
    by (auto split: option.splits)
  let ?al1 = "AList.update (id_profile v) p al"
  let ?s1 = "s[m := Map_obj ?al1]"
  let ?pm1 = "pm(id_profile v \<mapsto> v)"
  have same: "get_profile ?s1 = get_profile s"
    using get_profile_map_upd [OF Cons.prems(1)] by (simp add: fun_eq_iff)
  have m1: "get_map ?s1 m = Some ?al1"
    by (rule get_map_upd [OF Cons.prems(1)])
  have rel1: "map_rel ?s1 ?al1 ?pm1"
    using Cons.prems(3) v(1) by (simp add: map_rel_def same update_conv')
  have vs1: "those (map (get_profile ?s1) ps) = Some vs"
    using v(2) by (simp add: same)
  from Cons.IH [OF m1 vs1 rel1] obtain al' where al':
    "forEach_set m ps ?s1 = Some (?s1[m := Map_obj al'])"
    "map_rel ?s1 al' (fold (\<lambda>profile m. m(id_profile profile \<mapsto> profile)) vs ?pm1)"
    by blast
  have "forEach_set m (p # ps) s = Some (s[m := Map_obj al'])"
    using al'(1) v(1) Cons.prems(1) by (simp add: map_set_def)
  moreover have "map_rel s al' (fold (\<lambda>profile m. m(id_profile profile \<mapsto> profile)) vals pm)"
    using al'(2) v(3) by (simp add: map_rel_def same)
  ultimately show ?case by blast
qed

lemma profilesMap_store_refines:
  assumes "read_data get_profile s profilesData = Some pd"
  shows "\<exists>al. profilesMap_store profilesData s = Some (length s, s @ [Map_obj al])
          \<and> map_rel (s @ [Map_obj al]) al (profilesMap pd)"
proof (cases profilesData)
  case None
  with assms show ?thesis
    by (auto simp: profilesMap_store_def alloc_def read_data_def profilesMap_def map_rel_def)
next
  case (Some a)
  let ?s1 = "s @ [Map_obj []]"
  have p1: "prefix s ?s1" by simp
  from Some assms obtain elems vs where e: "get_array s a = Some elems"
    "those (map (get_profile s) elems) = Some vs" "pd = Some vs"
    by (auto simp: read_data_def read_array_def split: option.splits)
  have a1: "get_array ?s1 a = Some elems" by (rule get_prefix(5) [OF p1 e(1)])
  have v1: "those (map (get_profile ?s1) elems) = Some vs"
    by (rule those_map_mono [OF e(2)]) (rule get_prefix(3) [OF p1])
  have m1: "get_map ?s1 (length s) = Some []"
    by (simp add: get_defs lookup_def)
  have r1: "map_rel ?s1 [] Map.empty" by (simp add: map_rel_def)
  from forEach_set_refines [OF m1 v1 r1] obtain al' where al':
    "forEach_set (length s) elems ?s1 = Some (?s1[length s := Map_obj al'])"
    "map_rel ?s1 al' (fold (\<lambda>profile m. m(id_profile profile \<mapsto> profile)) vs Map.empty)"
    by blast
  have same: "get_profile (s @ [Map_obj al']) = get_profile ?s1"
    using get_profile_map_upd [OF m1, of al'] by (simp add: fun_eq_iff)
  have "map_rel (s @ [Map_obj al']) al' (profilesMap pd)"
    using al'(2) e(3) by (simp add: map_rel_def same profilesMap_def)
  with al'(1) a1 Some show ?thesis
    by (auto simp: profilesMap_store_def alloc_def)
qed

lemma reporter_name_store_refines:
  assumes "get_map s m = Some al" and "map_rel s al pm"
  shows "reporter_name_store m report s = Some (resolve_reporter_name pm report)"
proof -
  have "rel_option (\<lambda>p v. get_profile s p = Some v) (map_of al (user_id report))
          (pm (user_id report))"
    using assms(2) by (simp add: map_rel_def)
  then show ?thesis
    using assms(1)
    by (cases rule: option.rel_cases)
       (simp_all add: reporter_name_store_def resolve_reporter_name_def Let_def)
qed

lemma get_row_alloc: "get_row (s @ [Row_obj w]) (length s) = Some w"
  by (simp add: get_defs lookup_def)

lemma with_votes_store_refines:
  assumes "get_report s r = Some report"
    and "read_data get_interaction s interactionsData = Some idata"
    and "get_map s m = Some al" and "map_rel s al pm"
  shows "\<exists>a s'. with_votes_store m interactionsData r s = Some (a, s') \<and> prefix s s'
           \<and> get_row s' a = Some (with_votes pm idata report)"
proof -
  from votes_store_refines [OF assms(2), of report] obtain s1 where s1:
    "votes_store interactionsData report s =
       Some (count_votes Upvote (reportInteractions idata report),
             count_votes Downvote (reportInteractions idata report), s1)"
    "prefix s s1"
    by blast
  have name: "reporter_name_store m report s1 = Some (resolve_reporter_name pm report)"
    by (rule reporter_name_store_refines [OF get_prefix(6) [OF s1(2) assms(3)]
          map_rel_prefix [OF s1(2) assms(4)]])
  let ?w = "with_votes pm idata report"
  have "with_votes_store m interactionsData r s = Some (length s1, s1 @ [Row_obj ?w])"
    using assms(1) s1(1) name by (simp add: with_votes_store_def with_votes_def alloc_def Let_def)
  moreover have "prefix s (s1 @ [Row_obj ?w])"
    using s1(2) by (auto simp: prefix_def)
  ultimately show ?thesis
    using get_row_alloc [of s1 ?w] by blast
qed

lemma with_votes_plain_store_refines:
  assumes "get_report s r = Some report"
    and "read_data get_interaction s interactionsData = Some idata"
  shows "\<exists>a s'. with_votes_plain_store interactionsData r s = Some (a, s') \<and> prefix s s'
           \<and> get_row s' a = Some (with_votes_plain idata report)"
proof -
  from votes_store_refines [OF assms(2), of report] obtain s1 where s1:
    "votes_store interactionsData report s =
       Some (count_votes Upvote (reportInteractions idata report),
             count_votes Downvote (reportInteractions idata report), s1)"
    "prefix s s1"
    by blast
  let ?w = "with_votes_plain idata report"
  have "with_votes_plain_store interactionsData r s = Some (length s1, s1 @ [Row_obj ?w])"
    using assms(1) s1(1)
    by (simp add: with_votes_plain_store_def with_votes_plain_def alloc_def Let_def)
  moreover have "prefix s (s1 @ [Row_obj ?w])"
    using s1(2) by (auto simp: prefix_def)
  ultimately show ?thesis
    using get_row_alloc [of s1 ?w] by blast
qed

lemma map_store_refines:
  assumes step: "\<And>s1 r v. prefix s0 s1 \<Longrightarrow> get_report s1 r = Some v \<Longrightarrow>
            \<exists>a s'. callback r s1 = Some (a, s') \<and> prefix s1 s' \<and> get_row s' a = Some (f v)"
    and "prefix s0 s"
    and "those (map (get_report s) rs) = Some vals"
  shows "\<exists>rows s'. map_store callback rs s = Some (rows, s') \<and> prefix s s'
           \<and> those (map (get_row s') rows) = Some (map f vals)"
  using assms(2,3)
proof (induction rs arbitrary: s vals)
  case Nil
  then show ?case by simp
next
  case (Cons r rs)
  from Cons.prems(2) obtain v vs where v: "get_report s r = Some v"
    "those (map (get_report s) rs) = Some vs" "vals = v # vs"
    by (auto split: option.splits)
  from step [OF Cons.prems(1) v(1)] obtain a s1 where a:
    "callback r s = Some (a, s1)" "prefix s s1" "get_row s1 a = Some (f v)"
    by blast
  have p01: "prefix s0 s1" using Cons.prems(1) a(2) by (rule prefix_order.trans)
  have vs1: "those (map (get_report s1) rs) = Some vs"
    by (rule those_map_mono [OF v(2)]) (rule get_prefix(1) [OF a(2)])
  from Cons.IH [OF p01 vs1] obtain rows s2 where rows:
    "map_store callback rs s1 = Some (rows, s2)" "prefix s1 s2"
    "those (map (get_row s2) rows) = Some (map f vs)"
    by blast
  have "map_store callback (r # rs) s = Some (a # rows, s2)"
    using a(1) rows(1) by simp
  moreover have "prefix s s2" using a(2) rows(2) by (rule prefix_order.trans)
  moreover have "those (map (get_row s2) (a # rows)) = Some (map f vals)"
    using get_prefix(4) [OF rows(2) a(3)] rows(3) v(3) by simp
  ultimately show ?case by blast
qed

lemma array_map_store_refines:
  assumes step: "\<And>s1 r v. prefix s s1 \<Longrightarrow> get_report s1 r = Some v \<Longrightarrow>
            \<exists>a s'. callback r s1 = Some (a, s') \<and> prefix s1 s' \<and> get_row s' a = Some (f v)"
    and "read_data get_report s reportsData = Some rd"
  shows "\<exists>out s'. array_map_store callback reportsData s = Some (out, s') \<and> prefix s s'
           \<and> read_array get_row s' out = Some (map f (or_empty rd))"
proof -
  obtain elems s1 where e:
    "(case reportsData of
        None \<Rightarrow> Some ([], snd (alloc (Array_obj []) s))
      | Some a \<Rightarrow> map_option (\<lambda>elems. (elems, s)) (get_array s a)) = Some (elems, s1)"
    "prefix s s1" "those (map (get_report s1) elems) = Some (or_empty rd)"
    using assms(2)
    by (cases reportsData)
       (auto simp: read_data_def read_array_def alloc_def or_empty_def split: option.splits)
  from map_store_refines [of s callback f, OF step e(2,3)] obtain rows s2 where rows:
    "map_store callback elems s1 = Some (rows, s2)" "prefix s1 s2"
    "those (map (get_row s2) rows) = Some (map f (or_empty rd))"
    by blast
  let ?s3 = "s2 @ [Array_obj rows]"
  have p23: "prefix s2 ?s3" by simp
  have "array_map_store callback reportsData s = Some (length s2, ?s3)"
    using e(1) rows(1) by (simp add: array_map_store_def alloc_def)
  moreover have "prefix s ?s3"
    using e(2) rows(2) p23 by (meson prefix_order.trans)
  moreover have "read_array get_row ?s3 (length s2) = Some (map f (or_empty rd))"
    using those_map_mono [OF rows(3), of "get_row ?s3"] get_prefix(4) [OF p23]
    by (simp add: read_array_def get_defs lookup_def)
  ultimately show ?thesis by blast
qed

lemma aggregate_store_refines:
  assumes "read_data get_report s reportsData = Some rd"
    and "read_data get_interaction s interactionsData = Some idata"
    and "read_data get_profile s profilesData = Some pd"
  shows "\<exists>out s'. aggregate_store reportsData interactionsData profilesData s = Some (out, s')
           \<and> prefix s s' \<and> read_array get_row s' out = Some (aggregate rd idata pd)"
proof -
  from profilesMap_store_refines [OF assms(3)] obtain al where al:
    "profilesMap_store profilesData s = Some (length s, s @ [Map_obj al])"
    "map_rel (s @ [Map_obj al]) al (profilesMap pd)"
    by blast
  let ?s1 = "s @ [Map_obj al]"
  have p1: "prefix s ?s1" by simp
  have m1: "get_map ?s1 (length s) = Some al" by (simp add: get_defs lookup_def)
  have step: "\<exists>a s'. with_votes_store (length s) interactionsData r s2 = Some (a, s')
                \<and> prefix s2 s' \<and> get_row s' a = Some (with_votes (profilesMap pd) idata v)"
    if "prefix ?s1 s2" "get_report s2 r = Some v" for s2 r v
    using that(2) read_data_prefix(2) [OF that(1) read_data_prefix(2) [OF p1 assms(2)]]
      get_prefix(6) [OF that(1) m1] map_rel_prefix [OF that(1) al(2)]
    by (rule with_votes_store_refines)
  from array_map_store_refines [of ?s1 "with_votes_store (length s) interactionsData"
      "with_votes (profilesMap pd) idata", OF step read_data_prefix(1) [OF p1 assms(1)]]
  obtain out s' where out:
    "array_map_store (with_votes_store (length s) interactionsData) reportsData ?s1 = Some (out, s')"
    "prefix ?s1 s'"
    "read_array get_row s' out = Some (map (with_votes (profilesMap pd) idata) (or_empty rd))"
    by blast
  have "prefix s s'" using p1 out(2) by (rule prefix_order.trans)
  with al(1) out(1,3) show ?thesis
    by (simp add: aggregate_store_def aggregate_def)
qed

lemma aggregate_plain_store_refines:
  assumes "read_data get_report s reportsData = Some rd"
    and "read_data get_interaction s interactionsData = Some idata"
  shows "\<exists>out s'. aggregate_plain_store reportsData interactionsData s = Some (out, s')
           \<and> prefix s s' \<and> read_array get_row s' out = Some (aggregate_plain rd idata)"
proof -
  have step: "\<exists>a s'. with_votes_plain_store interactionsData r s2 = Some (a, s')
                \<and> prefix s2 s' \<and> get_row s' a = Some (with_votes_plain idata v)"
    if "prefix s s2" "get_report s2 r = Some v" for s2 r v
    using that(2) read_data_prefix(2) [OF that(1) assms(2)]
    by (rule with_votes_plain_store_refines)
  from array_map_store_refines [of s "with_votes_plain_store interactionsData"
      "with_votes_plain idata", OF step assms(1)]
  show ?thesis
    by (simp add: aggregate_plain_store_def aggregate_plain_def)
qed

lemmas example_store_defs = example_store_def example_store'_def read_data_def read_array_def
  get_report_def get_interaction_def get_profile_def get_array_def lookup_def

section \<open>The claims\<close>

text \<open>
  Claim C1. Whatever the reports, interactions and profiles are, the row the aggregator
  produces for the report at position \<open>k\<close> has \<open>upvotes\<close> equal to the number of
  interactions whose \<open>report_id\<close> is that report's id and whose type is upvote, and
  \<open>downvotes\<close> equal to the number of those whose type is downvote; when no interaction
  refers to the report, both are 0. (A \<open>null\<close> collection counts as the empty one, as
  in the code.) The witness is the spec's example, two upvotes and one downvote for report
  "a", and a report "b" no interaction refers to.
\<close>

theorem aggregate_vote_counts:
  assumes "k < length (or_empty reportsData)"
  shows "upvotes (aggregate reportsData interactionsData profilesData ! k) =
           length (filter (\<lambda>i. report_id i = id_report (or_empty reportsData ! k)
                                \<and> interaction_type i = Upvote) (or_empty interactionsData))
       \<and> downvotes (aggregate reportsData interactionsData profilesData ! k) =
           length (filter (\<lambda>i. report_id i = id_report (or_empty reportsData ! k)
                                \<and> interaction_type i = Downvote) (or_empty interactionsData))
       \<and> ((\<forall>i \<in> set (or_empty interactionsData).
              report_id i \<noteq> id_report (or_empty reportsData ! k))
            \<longrightarrow> upvotes (aggregate reportsData interactionsData profilesData ! k) = 0
              \<and> downvotes (aggregate reportsData interactionsData profilesData ! k) = 0)"
  using assms
  by (simp add: aggregate_def with_votes_sel count_votes_reportInteractions)

theorem aggregate_vote_counts_witness:
  "upvotes (aggregate (Some [example_report ''a'' ''u1'' Reported False])
       (Some [example_interaction ''i1'' ''a'' Upvote, example_interaction ''i2'' ''a'' Upvote,
              example_interaction ''i3'' ''a'' Downvote]) None ! 0) = 2
   \<and> downvotes (aggregate (Some [example_report ''a'' ''u1'' Reported False])
       (Some [example_interaction ''i1'' ''a'' Upvote, example_interaction ''i2'' ''a'' Upvote,
              example_interaction ''i3'' ''a'' Downvote]) None ! 0) = 1
   \<and> upvotes (aggregate (Some [example_report ''a'' ''u1'' Reported False,
                                example_report ''b'' ''u2'' Resolved False])
       (Some [example_interaction ''i1'' ''a'' Upvote]) None ! 1) = 0
   \<and> downvotes (aggregate (Some [example_report ''a'' ''u1'' Reported False,
                                  example_report ''b'' ''u2'' Resolved False])
       (Some [example_interaction ''i1'' ''a'' Upvote]) None ! 1) = 0"
  using aggregate_vote_counts [of 0 "Some [example_report ''a'' ''u1'' Reported False]"
      "Some [example_interaction ''i1'' ''a'' Upvote, example_interaction ''i2'' ''a'' Upvote,
             example_interaction ''i3'' ''a'' Downvote]" None]
    aggregate_vote_counts [of 1 "Some [example_report ''a'' ''u1'' Reported False,
                                       example_report ''b'' ''u2'' Resolved False]"
      "Some [example_interaction ''i1'' ''a'' Upvote]" None]
  by (simp add: or_empty_def example_report_def example_interaction_def)

text \<open>
  Claim C2. For a report whose \<open>is_anonymous\<close> flag is true the aggregator of the
  variant with profiles sets \<open>reporter_name\<close> to "Anonymous", whatever the profiles
  collection holds. The witness has a profile for the report's user in one run and no
  profile at all in the other.
\<close>

theorem anonymous_reporter_name:
  assumes "k < length (or_empty reportsData)"
    and "is_anonymous (or_empty reportsData ! k)"
  shows "reporter_name (aggregate reportsData interactionsData profilesData ! k) =
           Some ''Anonymous''"
  using assms by (simp add: aggregate_def with_votes_sel resolve_reporter_name_def)

theorem anonymous_reporter_name_witness:
  "reporter_name (aggregate (Some [example_report ''a'' ''u1'' Reported True]) None
       (Some [example_profile ''u1'' (Some ''Asha'') ''asha@example.org'']) ! 0)
     = Some ''Anonymous''
   \<and> reporter_name (aggregate (Some [example_report ''a'' ''u1'' Reported True]) None
       (Some []) ! 0) = Some ''Anonymous''"
  using anonymous_reporter_name [of 0 "Some [example_report ''a'' ''u1'' Reported True]" None
      "Some [example_profile ''u1'' (Some ''Asha'') ''asha@example.org'']"]
    anonymous_reporter_name [of 0 "Some [example_report ''a'' ''u1'' Reported True]" None
      "Some []"]
  by (simp add: or_empty_def example_report_def)

text \<open>
  Claim C3, as stated: for a non-anonymous report, \<open>reporter_name\<close> is the full name of the
  profile whose id is the report's \<open>user_id\<close> whenever that full name is set. It fails
  for a full name that is set to the empty string: the report of user "u1" is not
  anonymous, the profile "u1" has full name "" and an email, and the row's
  \<open>reporter_name\<close> is the email, not the full name.
\<close>

theorem reporter_name_full_name_counterexample:
  "\<not> is_anonymous (example_report ''a'' ''u1'' Reported False)
   \<and> profilesMap (Some [example_profile ''u1'' (Some []) ''asha@example.org''])
        (user_id (example_report ''a'' ''u1'' Reported False))
       = Some (example_profile ''u1'' (Some []) ''asha@example.org'')
   \<and> full_name (example_profile ''u1'' (Some []) ''asha@example.org'') = Some []
   \<and> reporter_name (aggregate (Some [example_report ''a'' ''u1'' Reported False]) None
         (Some [example_profile ''u1'' (Some []) ''asha@example.org'']) ! 0)
       = Some ''asha@example.org''
   \<and> reporter_name (aggregate (Some [example_report ''a'' ''u1'' Reported False]) None
         (Some [example_profile ''u1'' (Some []) ''asha@example.org'']) ! 0)
       \<noteq> full_name (example_profile ''u1'' (Some []) ''asha@example.org'')"
  by (simp add: example_aggregate_defs)

text \<open>
  Claim C3, amended. For a non-anonymous report, the aggregator looks up the profile whose
  id is the report's \<open>user_id\<close> (the last one in the collection, should several share the
  id). \<open>reporter_name\<close> is that profile's full name when it is set and not the empty
  string; otherwise the profile's email when that is not the empty string; and "Unknown"
  when there is no such profile or neither field is a non-empty string.
\<close>

theorem reporter_name_fallback:
  assumes "k < length (or_empty reportsData)"
    and "\<not> is_anonymous (or_empty reportsData ! k)"
  shows "reporter_name (aggregate reportsData interactionsData profilesData ! k) =
     Some (case List.find (\<lambda>p. id_profile p = user_id (or_empty reportsData ! k))
                  (rev (or_empty profilesData)) of
             None \<Rightarrow> ''Unknown''
           | Some p \<Rightarrow>
               (case full_name p of
                  Some n \<Rightarrow>
                    if n \<noteq> [] then n else if email p \<noteq> [] then email p else ''Unknown''
                | None \<Rightarrow> if email p \<noteq> [] then email p else ''Unknown''))"
  using assms
  by (simp add: aggregate_def with_votes_sel resolve_reporter_name_def profilesMap_lookup
      js_or_def js_or_lit_def Let_def split: option.splits)

theorem reporter_name_fallback_witness:
  "map reporter_name (aggregate
      (Some [example_report ''a'' ''u1'' Reported False, example_report ''b'' ''u2'' Reported False,
             example_report ''c'' ''u3'' Reported False, example_report ''d'' ''u4'' Reported False])
      None
      (Some [example_profile ''u1'' (Some ''Asha'') ''asha@example.org'',
             example_profile ''u2'' None ''bo@example.org'',
             example_profile ''u3'' None []]))
   = [Some ''Asha'', Some ''bo@example.org'', Some ''Unknown'', Some ''Unknown'']"
proof -
  let ?rd = "Some [example_report ''a'' ''u1'' Reported False,
                   example_report ''b'' ''u2'' Reported False,
                   example_report ''c'' ''u3'' Reported False,
                   example_report ''d'' ''u4'' Reported False]"
  let ?pd = "Some [example_profile ''u1'' (Some ''Asha'') ''asha@example.org'',
                   example_profile ''u2'' None ''bo@example.org'',
                   example_profile ''u3'' None []]"
  have len: "length (aggregate ?rd None ?pd) = 4"
    by (simp add: aggregate_def or_empty_def)
  have r0: "reporter_name (aggregate ?rd None ?pd ! 0) = Some ''Asha''"
    using reporter_name_fallback [of 0 ?rd None ?pd]
    by (simp add: or_empty_def example_report_def example_profile_def)
  have r1: "reporter_name (aggregate ?rd None ?pd ! 1) = Some ''bo@example.org''"
    using reporter_name_fallback [of 1 ?rd None ?pd]
    by (simp add: or_empty_def example_report_def example_profile_def)
  have r2: "reporter_name (aggregate ?rd None ?pd ! 2) = Some ''Unknown''"
    using reporter_name_fallback [of 2 ?rd None ?pd]
    by (simp add: or_empty_def example_report_def example_profile_def)
  have r3: "reporter_name (aggregate ?rd None ?pd ! 3) = Some ''Unknown''"
    using reporter_name_fallback [of 3 ?rd None ?pd]
    by (simp add: or_empty_def example_report_def example_profile_def)
  show ?thesis
    using len r0 r1 r2 r3
    by (simp add: list_eq_iff_nth_eq less_Suc_eq numeral_eq_Suc)
qed

text \<open>
  Claim C4. Filtering a list of aggregated reports by one of the three status values gives
  exactly the reports whose \<open>status\<close> is that value, in their original order (a
  subsequence of the list); filtering by "all" gives the list itself.
\<close>

theorem filteredReports_exact:
  "filteredReports All rows = rows
   \<and> filteredReports (Only st) rows = filter (\<lambda>report. status report = st) rows
   \<and> subseq (filteredReports (Only st) rows) rows"
  by (simp add: filteredReports_def)

theorem filteredReports_exact_witness:
  "filteredReports All
       [example_row ''a'' Reported, example_row ''b'' Resolved, example_row ''c'' Reported]
     = [example_row ''a'' Reported, example_row ''b'' Resolved, example_row ''c'' Reported]
   \<and> filteredReports (Only Reported)
       [example_row ''a'' Reported, example_row ''b'' Resolved, example_row ''c'' Reported]
     = [example_row ''a'' Reported, example_row ''c'' Reported]
   \<and> filteredReports (Only In_progress)
       [example_row ''a'' Reported, example_row ''b'' Resolved, example_row ''c'' Reported]
     = []"
  using filteredReports_exact [of "[example_row ''a'' Reported, example_row ''b'' Resolved,
                                    example_row ''c'' Reported]" Reported]
    filteredReports_exact [of "[example_row ''a'' Reported, example_row ''b'' Resolved,
                                example_row ''c'' Reported]" In_progress]
  by (simp add: example_row_def example_report_def Report.extend_def)

text \<open>
  Claim C5. Both variants of the aggregator return one row for every input report, in the
  order of the input, and the \<open>Report\<close> part of each row is the source report with every
  field unchanged: cutting the rows back to their \<open>Report\<close> fields gives the input
  sequence. The variant without profiles adds no \<open>reporter_name\<close>.
\<close>

theorem aggregate_rows_preserve_reports:
  "length (aggregate reportsData interactionsData profilesData) = length (or_empty reportsData)
   \<and> map Report.truncate (aggregate reportsData interactionsData profilesData)
       = or_empty reportsData
   \<and> length (aggregate_plain reportsData interactionsData) = length (or_empty reportsData)
   \<and> map Report.truncate (aggregate_plain reportsData interactionsData) = or_empty reportsData
   \<and> map reporter_name (aggregate_plain reportsData interactionsData)
       = replicate (length (or_empty reportsData)) None"
  by (simp add: aggregate_def aggregate_plain_def with_votes_sel with_votes_plain_sel o_def
      map_replicate_const)

theorem aggregate_rows_preserve_reports_witness:
  "map Report.truncate
     (aggregate (Some [example_report ''b'' ''u2'' Resolved True,
                       example_report ''a'' ''u1'' Reported False])
        (Some [example_interaction ''i1'' ''a'' Upvote])
        (Some [example_profile ''u1'' (Some ''Asha'') ''asha@example.org'']))
     = [example_report ''b'' ''u2'' Resolved True, example_report ''a'' ''u1'' Reported False]
   \<and> map Report.truncate
     (aggregate_plain (Some [example_report ''b'' ''u2'' Resolved True,
                             example_report ''a'' ''u1'' Reported False])
        (Some [example_interaction ''i1'' ''a'' Upvote]))
     = [example_report ''b'' ''u2'' Resolved True, example_report ''a'' ''u1'' Reported False]"
  using aggregate_rows_preserve_reports
      [of "Some [example_report ''b'' ''u2'' Resolved True,
                 example_report ''a'' ''u1'' Reported False]"
          "Some [example_interaction ''i1'' ''a'' Upvote]"
          "Some [example_profile ''u1'' (Some ''Asha'') ''asha@example.org'']"]
  by (simp add: or_empty_def)

text \<open>
  Claim C6. After a successful remote update (the call is fulfilled with no error), the
  local list keeps its length; a report whose id differs from the given one is left as it
  was; a report whose id equals it gets the target status and a fresh clock reading as
  \<open>updated_at\<close>, all its other fields unchanged; and the rest of the component's state
  is untouched.
\<close>

theorem updateReportStatus_frame:
  assumes "k < length (reports s)"
  shows "length (reports (fst (updateReportStatus rid st clock (Fulfilled u None) s)))
           = length (reports s)
     \<and> (id_report (reports s ! k) \<noteq> rid \<longrightarrow>
          reports (fst (updateReportStatus rid st clock (Fulfilled u None) s)) ! k
            = reports s ! k)
     \<and> (id_report (reports s ! k) = rid \<longrightarrow>
          reports (fst (updateReportStatus rid st clock (Fulfilled u None) s)) ! k =
            (reports s ! k)\<lparr>status := st,
               updated_at := clock (Suc (length (filter (\<lambda>r. id_report r = rid)
                                                   (take k (reports s)))))\<rparr>)
     \<and> loading (fst (updateReportStatus rid st clock (Fulfilled u None) s)) = loading s
     \<and> error (fst (updateReportStatus rid st clock (Fulfilled u None) s)) = error s
     \<and> statusFilter (fst (updateReportStatus rid st clock (Fulfilled u None) s))
         = statusFilter s"
  using assms
  by (simp add: updateReportStatus_def settle_def length_mirror_status nth_mirror_status)

theorem updateReportStatus_frame_witness:
  "reports (fst (updateReportStatus ''b'' Resolved example_clock (Fulfilled () None)
       (example_dashboard [example_row ''a'' Reported, example_row ''b'' In_progress]))) ! 0
     = example_row ''a'' Reported
   \<and> reports (fst (updateReportStatus ''b'' Resolved example_clock (Fulfilled () None)
       (example_dashboard [example_row ''a'' Reported, example_row ''b'' In_progress]))) ! 1
     = (example_row ''b'' In_progress)\<lparr>status := Resolved, updated_at := ''T1''\<rparr>"
  using updateReportStatus_frame
      [of 0 "example_dashboard [example_row ''a'' Reported, example_row ''b'' In_progress]"
          "''b''" Resolved example_clock "()"]
    updateReportStatus_frame
      [of 1 "example_dashboard [example_row ''a'' Reported, example_row ''b'' In_progress]"
          "''b''" Resolved example_clock "()"]
  by (simp add: example_dashboard_def example_row_def example_report_def Report.extend_def
      example_clock_def)

text \<open>
  Claim C7. When the remote update fails, whether the call rejects (throws) or is
  fulfilled with an error object, \<open>updateReportStatus\<close> returns the component's state as
  it was, the report list included, and the failure is logged and then shown by the alert
  "Failed to update status".
\<close>

theorem updateReportStatus_failure:
  "updateReportStatus rid st clock (Rejected e) s =
     (s, [RemoteUpdate rid st (clock 0), ConsoleError ''Error updating status:'' e,
          Alert ''Failed to update status''])
   \<and> updateReportStatus rid st clock (Fulfilled u (Some e)) s =
     (s, [RemoteUpdate rid st (clock 0), ConsoleError ''Error updating status:'' e,
          Alert ''Failed to update status''])"
  by (simp add: updateReportStatus_def settle_def)

theorem updateReportStatus_failure_witness:
  "reports (fst (updateReportStatus ''a'' Resolved example_clock
       (Fulfilled () (Some (ErrorInstance ''permission denied'')))
       (example_dashboard [example_row ''a'' Reported])))
     = [example_row ''a'' Reported]
   \<and> reports (fst (updateReportStatus ''a'' Resolved example_clock (Rejected OtherValue)
       (example_dashboard [example_row ''a'' Reported])))
     = [example_row ''a'' Reported]"
  using updateReportStatus_failure
      [of "''a''" Resolved example_clock "ErrorInstance ''permission denied''"
          "example_dashboard [example_row ''a'' Reported]" "()"]
    updateReportStatus_failure
      [of "''a''" Resolved example_clock OtherValue
          "example_dashboard [example_row ''a'' Reported]" "()"]
  by (simp add: example_dashboard_def)

text \<open>
  Claim C8. For every current status and every target status, the current one included,
  a successful update sets the status of a report with the given id to the target and
  raises no alert: nothing in the update looks at the pair of statuses. The current status
  is excluded only in the view, where the buttons rendered for a row are exactly those of
  the other statuses.
\<close>

theorem updateReportStatus_any_transition:
  assumes "k < length (reports s)"
    and "id_report (reports s ! k) = rid"
  shows "status (reports (fst (updateReportStatus rid t clock (Fulfilled u None) s)) ! k) = t
     \<and> snd (updateReportStatus rid t clock (Fulfilled u None) s)
         = [RemoteUpdate rid t (clock 0)]
     \<and> (t \<in> set (action_buttons (status (reports s ! k))) \<longleftrightarrow> t \<noteq> status (reports s ! k))"
  using assms
  by (cases t; cases "status (reports s ! k)")
     (simp_all add: updateReportStatus_def settle_def nth_mirror_status action_buttons_def)

theorem updateReportStatus_any_transition_witness:
  "status (reports (fst (updateReportStatus ''a'' Resolved example_clock (Fulfilled () None)
       (example_dashboard [example_row ''a'' Resolved]))) ! 0) = Resolved
   \<and> snd (updateReportStatus ''a'' Resolved example_clock (Fulfilled () None)
       (example_dashboard [example_row ''a'' Resolved])) = [RemoteUpdate ''a'' Resolved ''T0'']
   \<and> Resolved \<notin> set (action_buttons Resolved)
   \<and> status (reports (fst (updateReportStatus ''a'' Reported example_clock (Fulfilled () None)
       (example_dashboard [example_row ''a'' Resolved]))) ! 0) = Reported
   \<and> Reported \<in> set (action_buttons Resolved)"
  using updateReportStatus_any_transition
      [of 0 "example_dashboard [example_row ''a'' Resolved]" "''a''" Resolved example_clock "()"]
    updateReportStatus_any_transition
      [of 0 "example_dashboard [example_row ''a'' Resolved]" "''a''" Reported example_clock "()"]
  by (simp add: example_dashboard_def example_row_def example_report_def Report.extend_def
      example_clock_def)

text \<open>
  Claim C9. The aggregation is a deterministic function of its inputs with no side effect.
  Take two runs, in two stores, on collections that hold equal reports, equal interactions
  and equal profiles (at whatever addresses, and whatever else the stores hold). Both runs
  return; the rows they return are equal, namely the aggregated rows of those collections;
  and each run leaves every object that existed before it as it was: all it does to the
  store is allocate. This holds for the variant with profiles and for the one without.
\<close>

theorem aggregate_store_pure:
  assumes "read_data get_report s1 rs1 = Some rd"
    and "read_data get_interaction s1 is1 = Some idata"
    and "read_data get_profile s1 ps1 = Some pd"
    and "read_data get_report s2 rs2 = Some rd"
    and "read_data get_interaction s2 is2 = Some idata"
    and "read_data get_profile s2 ps2 = Some pd"
  shows "(\<exists>out1 s1' out2 s2'.
            aggregate_store rs1 is1 ps1 s1 = Some (out1, s1')
          \<and> aggregate_store rs2 is2 ps2 s2 = Some (out2, s2')
          \<and> prefix s1 s1' \<and> prefix s2 s2'
          \<and> read_array get_row s1' out1 = Some (aggregate rd idata pd)
          \<and> read_array get_row s2' out2 = read_array get_row s1' out1)
       \<and> (\<exists>out1 s1' out2 s2'.
            aggregate_plain_store rs1 is1 s1 = Some (out1, s1')
          \<and> aggregate_plain_store rs2 is2 s2 = Some (out2, s2')
          \<and> prefix s1 s1' \<and> prefix s2 s2'
          \<and> read_array get_row s1' out1 = Some (aggregate_plain rd idata)
          \<and> read_array get_row s2' out2 = read_array get_row s1' out1)"
proof
  from aggregate_store_refines [OF assms(1-3)] aggregate_store_refines [OF assms(4-6)]
  show "\<exists>out1 s1' out2 s2'.
            aggregate_store rs1 is1 ps1 s1 = Some (out1, s1')
          \<and> aggregate_store rs2 is2 ps2 s2 = Some (out2, s2')
          \<and> prefix s1 s1' \<and> prefix s2 s2'
          \<and> read_array get_row s1' out1 = Some (aggregate rd idata pd)
          \<and> read_array get_row s2' out2 = read_array get_row s1' out1"
    by (elim exE conjE) simp
next
  from aggregate_plain_store_refines [OF assms(1,2)] aggregate_plain_store_refines [OF assms(4,5)]
  show "\<exists>out1 s1' out2 s2'.
            aggregate_plain_store rs1 is1 s1 = Some (out1, s1')
          \<and> aggregate_plain_store rs2 is2 s2 = Some (out2, s2')
          \<and> prefix s1 s1' \<and> prefix s2 s2'
          \<and> read_array get_row s1' out1 = Some (aggregate_plain rd idata)
          \<and> read_array get_row s2' out2 = read_array get_row s1' out1"
    by (elim exE conjE) simp
qed

theorem aggregate_store_pure_witness:
  "(\<exists>out1 s1' out2 s2'.
       aggregate_store (Some 1) (Some 3) (Some 5) example_store = Some (out1, s1')
     \<and> aggregate_store (Some 0) (Some 2) (Some 1) example_store' = Some (out2, s2')
     \<and> prefix example_store s1' \<and> prefix example_store' s2'
     \<and> read_array get_row s1' out1 =
         Some (aggregate (Some [example_report ''a'' ''u1'' Reported False])
                 (Some [example_interaction ''i1'' ''a'' Upvote])
                 (Some [example_profile ''u1'' (Some ''Asha'') ''asha@example.org'']))
     \<and> read_array get_row s2' out2 = read_array get_row s1' out1)
   \<and> (\<exists>out1 s1' out2 s2'.
       aggregate_plain_store (Some 1) (Some 3) example_store = Some (out1, s1')
     \<and> aggregate_plain_store (Some 0) (Some 2) example_store' = Some (out2, s2')
     \<and> prefix example_store s1' \<and> prefix example_store' s2'
     \<and> read_array get_row s1' out1 =
         Some (aggregate_plain (Some [example_report ''a'' ''u1'' Reported False])
                 (Some [example_interaction ''i1'' ''a'' Upvote]))
     \<and> read_array get_row s2' out2 = read_array get_row s1' out1)"
  by (rule aggregate_store_pure) (simp_all add: example_store_defs)

text \<open>
  Claim C10. The fallback tests truthiness: for a non-anonymous report whose profile has
  the empty string as full name, \<open>reporter_name\<close> is the profile's email, and "Unknown"
  when the email is the empty string too.
\<close>

theorem empty_full_name_falls_through:
  assumes "k < length (or_empty reportsData)"
    and "\<not> is_anonymous (or_empty reportsData ! k)"
    and "profilesMap profilesData (user_id (or_empty reportsData ! k)) = Some p"
    and "full_name p = Some []"
  shows "reporter_name (aggregate reportsData interactionsData profilesData ! k) =
           Some (if email p = [] then ''Unknown'' else email p)"
  using assms
  by (simp add: aggregate_def with_votes_sel resolve_reporter_name_def js_or_def js_or_lit_def)

theorem empty_full_name_falls_through_witness:
  "reporter_name (aggregate (Some [example_report ''a'' ''u1'' Reported False]) None
       (Some [example_profile ''u1'' (Some []) ''asha@example.org'']) ! 0)
     = Some ''asha@example.org''
   \<and> reporter_name (aggregate (Some [example_report ''a'' ''u1'' Reported False]) None
       (Some [example_profile ''u1'' (Some []) []]) ! 0) = Some ''Unknown''"
  using empty_full_name_falls_through
      [of 0 "Some [example_report ''a'' ''u1'' Reported False]"
          "Some [example_profile ''u1'' (Some []) ''asha@example.org'']"
          "example_profile ''u1'' (Some []) ''asha@example.org''" None]
    empty_full_name_falls_through
      [of 0 "Some [example_report ''a'' ''u1'' Reported False]"
          "Some [example_profile ''u1'' (Some []) []]"
          "example_profile ''u1'' (Some []) []" None]
  by (simp add: or_empty_def example_report_def example_profile_def profilesMap_def)

end
